theory Spec2Isabelle
  imports Main "HOL-Library.Sublist"
begin

section \<open>Data model of \<^verbatim>\<open>qachat.py\<close>\<close>

text \<open>
  Text is modelled as \<^typ>\<open>string\<close>, read as the UTF-8 bytes of the Python string:
  concatenation, emptiness and equality of Python strings are those of their byte
  sequences. An exception is represented by the text that \<^verbatim>\<open>str(e)\<close> gives.
\<close>

type_synonym exn = string

text \<open>
  The seven sidebar selections (\<^verbatim>\<open>age_group\<close> ... \<^verbatim>\<open>knowledge\<close>, lines 62-116). Each
  \<^verbatim>\<open>st.selectbox\<close> returns the label that is currently selected.
\<close>

record profile_selection =
  age_group :: string
  income :: string
  interest_rate :: string
  risk_tolerance :: string
  goal :: string
  time_horizon :: string
  knowledge :: string

text \<open>
  The three keys of \<^verbatim>\<open>st.session_state\<close> that the script owns. Transcript entries are the
  pairs \<^verbatim>\<open>("You", text)\<close> and \<^verbatim>\<open>("Bot", text)\<close>; \<^verbatim>\<open>model_history\<close> is a list of turns in
  the remote library's representation (opaque, type \<open>'t\<close>); \<^verbatim>\<open>chat_session\<close> is \<^verbatim>\<open>None\<close>
  or a reference to a chat object of the library (opaque, type \<open>'c\<close>).
\<close>

record ('c, 't) session_state =
  chat_history :: "(string \<times> string) list"
  model_history :: "'t list"
  chat_session :: "'c option"

text \<open>
  The state that lines 30-31 and 151-155 establish on the first run of a session, where
  none of the three keys is present yet.
\<close>

definition fresh_session :: "('c, 't) session_state" where
  "fresh_session = \<lparr>chat_history = [], model_history = [], chat_session = None\<rparr>"

text \<open>
  The remote library \<^verbatim>\<open>google.generativeai\<close> is not part of the repository. Its four entry
  points that the script calls are parameters of the model; each either raises (\<open>Inl\<close>,
  with the exception's text) or returns (\<open>Inr\<close>):
  \<^item> \<^verbatim>\<open>genai.GenerativeModel(MODEL_NAME, system_instruction=...)\<close>,
  \<^item> \<^verbatim>\<open>model.start_chat(history=...)\<close>,
  \<^item> \<^verbatim>\<open>chat.send_message(question, stream=True)\<close>,
  \<^item> the property \<^verbatim>\<open>chat.history\<close>, as read at line 216.
\<close>

text \<open>
  Evaluating \<^verbatim>\<open>chunk.text\<close> returns a string, raises \<^verbatim>\<open>ValueError\<close>, or raises something
  else.
\<close>

datatype chunk = Text string | TextValueError | TextRaises exn

text \<open>
  The response object is iterated once by the \<^verbatim>\<open>for\<close> loop: each step yields a chunk, ends
  the iteration, or raises.
\<close>

datatype stream = Exhausted | Raise exn | Yield chunk stream

record ('m, 'c, 't) genai =
  GenerativeModel :: "string \<Rightarrow> string \<Rightarrow> exn + 'm"
  start_chat :: "'m \<Rightarrow> 't list \<Rightarrow> exn + 'c"
  send_message :: "'c \<Rightarrow> string \<Rightarrow> exn + stream"
  history :: "'c \<Rightarrow> exn + 't list"

text \<open>What the run draws: the elements of the page that the claims speak about.\<close>

datatype ui = UserMessage string | Placeholder string | ErrorBox string

text \<open>
  The result of running the input handler: the session state it leaves, what it drew, and
  the exception that left the script, if one did.
\<close>

record ('c, 't) outcome =
  final_state :: "('c, 't) session_state"
  rendered :: "ui list"
  uncaught :: "exn option"

section \<open>Operations\<close>

definition MODEL_NAME :: string where
  "MODEL_NAME = ''gemini-2.5-flash''"

text \<open>\<^verbatim>\<open>reset_history\<close>, lines 24-27: two assignments, no \<^verbatim>\<open>return\<close>.\<close>

definition reset_history :: "('c, 't) session_state \<Rightarrow> ('c, 't) session_state" where
  "reset_history s = s\<lparr>chat_history := [], model_history := []\<rparr>"

text \<open>The f-string of lines 134-148.\<close>

definition system_prompt :: "profile_selection \<Rightarrow> string" where
  "system_prompt sel =
     ''\<newline>You are a highly qualified and ethical Financial Planner. Your '' @
     ''specialization is creating customized financial plans.\<newline>Your goal is '' @
     ''to provide safe, realistic, and personalized advice based on the user's '' @
     ''financial profile:\<newline>- **Age Group:** '' @
     age_group sel @
     ''\<newline>- **Monthly Income:** '' @
     income sel @
     '' (Rupees)\<newline>- **Average Debt Interest Rate:** '' @
     interest_rate sel @
     ''\<newline>- **Risk Tolerance:** '' @
     risk_tolerance sel @
     ''\<newline>- **Primary Financial Goal:** '' @
     goal sel @
     ''\<newline>- **Investment Time Horizon:** '' @
     time_horizon sel @
     ''\<newline>- **Financial Knowledge Level:** '' @
     knowledge sel @
     ''\<newline>\<newline>Always tailor your response to these settings. For '' @
     ''example, if 'Average Debt Interest Rate' is 'Over 15%', prioritize debt '' @
     ''payoff methods (like Avalanche or Snowball) over new investments. For a '18-25 '' @
     ''(Young Professional)', suggest higher risk/equity exposure. For a '51+ '' @
     ''(Pre/Post Retirement)', suggest conservative, income-generating instruments. '' @
     ''Use a tone appropriate for a user with a '' @
     knowledge sel @
     '' level of knowledge. Provide clear steps and actionable recommendations '' @
     ''focused on achieving the user's '' @
     goal sel @
     '' within a '' @
     risk_tolerance sel @
     '' risk framework. If the user asks for investment advice, prioritize safety '' @
     ''and diversification. DO NOT provide specific buy/sell recommendations, only '' @
     ''general asset allocation advice.\<newline>\<newline>CRITICAL INSTRUCTION: '' @
     ''When providing investment or financial product recommendations, **ALWAYS '' @
     ''format them as a numbered or bulleted list** for the clearest possible '' @
     ''output, explaining how each option aligns with the user's profile.\<newline>''"

text \<open>
  \<^verbatim>\<open>get_gemini_response\<close>, lines 33-55. The three library calls are inside one \<^verbatim>\<open>try\<close>; the
  chat object is stored at line 48, between \<^verbatim>\<open>start_chat\<close> and \<^verbatim>\<open>send_message\<close>. The result
  is the returned value (\<open>None\<close> after an exception), the session state and what
  \<^verbatim>\<open>st.error\<close> drew.
\<close>

definition api_error :: "exn \<Rightarrow> ui" where
  "api_error e = ErrorBox (''An API error occurred: '' @ e)"

definition get_gemini_response ::
  "('m, 'c, 't) genai \<Rightarrow> string \<Rightarrow> string \<Rightarrow> ('c, 't) session_state
     \<Rightarrow> stream option \<times> ('c, 't) session_state \<times> ui list" where
  "get_gemini_response g sp question s =
     (case GenerativeModel g MODEL_NAME sp of
        Inl e \<Rightarrow> (None, s, [api_error e])
      | Inr model \<Rightarrow>
          (case start_chat g model (model_history s) of
             Inl e \<Rightarrow> (None, s, [api_error e])
           | Inr chat \<Rightarrow>
               (let s' = s\<lparr>chat_session := Some chat\<rparr> in
                case send_message g chat question of
                  Inl e \<Rightarrow> (None, s', [api_error e])
                | Inr response \<Rightarrow> (Some response, s', []))))"

text \<open>The cursor \<^verbatim>\<open>U+258C\<close> that is shown after the partial reply, in UTF-8.\<close>

definition cursor :: string where
  "cursor = [CHR 0xE2, CHR 0x96, CHR 0x8C]"

text \<open>
  The loop of lines 198-205, with \<^verbatim>\<open>full_response\<close> and the placeholder updates as
  accumulators. Only \<^verbatim>\<open>ValueError\<close> is caught; another exception from \<^verbatim>\<open>chunk.text\<close> or
  from the iteration leaves the loop. The first component of the result is that exception.
\<close>

fun stream_loop :: "stream \<Rightarrow> string \<Rightarrow> ui list \<Rightarrow> exn option \<times> string \<times> ui list" where
  "stream_loop Exhausted full_response out = (None, full_response, out)"
| "stream_loop (Raise e) full_response out = (Some e, full_response, out)"
| "stream_loop (Yield (Text t) rest) full_response out =
     (if t \<noteq> []
      then stream_loop rest (full_response @ t) (out @ [Placeholder (full_response @ t @ cursor)])
      else stream_loop rest full_response out)"
| "stream_loop (Yield TextValueError rest) full_response out = stream_loop rest full_response out"
| "stream_loop (Yield (TextRaises e) rest) full_response out = (Some e, full_response, out)"

text \<open>
  Step 5, lines 214-218: when a chat object is stored, its history is read and stored;
  an exception of the read is drawn as an error.
\<close>

definition save_history ::
  "('m, 'c, 't) genai \<Rightarrow> ('c, 't) session_state \<Rightarrow> ('c, 't) session_state \<times> ui list" where
  "save_history g s =
     (case chat_session s of
        None \<Rightarrow> (s, [])
      | Some chat \<Rightarrow>
          (case history g chat of
             Inl e \<Rightarrow> (s, [ErrorBox (''Error saving model history: '' @ e)])
           | Inr h \<Rightarrow> (s\<lparr>model_history := h\<rparr>, [])))"

text \<open>
  The handler of lines 179-218. \<^verbatim>\<open>st.chat_input\<close> gives \<^verbatim>\<open>None\<close> or the submitted text; the
  body runs when that is truthy. A response object is truthy whatever it yields; only the
  \<^verbatim>\<open>None\<close> of a failed call skips lines 198-211.
\<close>

definition chat_input_handler ::
  "('m, 'c, 't) genai \<Rightarrow> string \<Rightarrow> string option \<Rightarrow> ('c, 't) session_state
     \<Rightarrow> ('c, 't) outcome" where
  "chat_input_handler g sp input s =
     (case input of
        None \<Rightarrow> \<lparr>final_state = s, rendered = [], uncaught = None\<rparr>
      | Some prompt \<Rightarrow>
          if prompt = [] then \<lparr>final_state = s, rendered = [], uncaught = None\<rparr>
          else
            (let s1 = s\<lparr>chat_history := chat_history s @ [(''You'', prompt)]\<rparr>;
                 (response_stream, s2, errs) = get_gemini_response g sp prompt s1
             in case response_stream of
                  None \<Rightarrow>
                    (let (s3, errs') = save_history g s2
                     in \<lparr>final_state = s3,
                         rendered = UserMessage prompt # errs @ errs',
                         uncaught = None\<rparr>)
                | Some response \<Rightarrow>
                    (case stream_loop response [] [] of
                       (Some e, full_response, out) \<Rightarrow>
                         \<lparr>final_state = s2,
                          rendered = UserMessage prompt # errs @ out,
                          uncaught = Some e\<rparr>
                     | (None, full_response, out) \<Rightarrow>
                         (let s3 = s2\<lparr>chat_history := chat_history s2 @ [(''Bot'', full_response)]\<rparr>;
                              (s4, errs') = save_history g s3
                          in \<lparr>final_state = s4,
                              rendered = UserMessage prompt # errs @ out
                                           @ [Placeholder full_response] @ errs',
                              uncaught = None\<rparr>))))"

section \<open>Notions of the specification\<close>

text \<open>
  The fragments that a stream yields as text, in order: the strings that \<^verbatim>\<open>chunk.text\<close>
  returns. A chunk whose \<^verbatim>\<open>text\<close> raises yields none.
\<close>

fun yielded_fragments :: "stream \<Rightarrow> string list" where
  "yielded_fragments Exhausted = []"
| "yielded_fragments (Raise e) = []"
| "yielded_fragments (Yield (Text t) rest) = t # yielded_fragments rest"
| "yielded_fragments (Yield TextValueError rest) = yielded_fragments rest"
| "yielded_fragments (Yield (TextRaises e) rest) = yielded_fragments rest"

text \<open>The same stream without the chunks whose \<^verbatim>\<open>text\<close> raises \<^verbatim>\<open>ValueError\<close>.\<close>

fun skip_undecodable :: "stream \<Rightarrow> stream" where
  "skip_undecodable Exhausted = Exhausted"
| "skip_undecodable (Raise e) = Raise e"
| "skip_undecodable (Yield TextValueError rest) = skip_undecodable rest"
| "skip_undecodable (Yield c rest) = Yield c (skip_undecodable rest)"

text \<open>
  The fragments that are read before the consumption of a stream ends: the strings that
  \<^verbatim>\<open>chunk.text\<close> returns, up to the end of the stream or to the first exception that is not
  the \<^verbatim>\<open>ValueError\<close> of a \<^verbatim>\<open>text\<close>. Fragments after an undecodable chunk are among them.
\<close>

fun fragments_before_raise :: "stream \<Rightarrow> string list" where
  "fragments_before_raise Exhausted = []"
| "fragments_before_raise (Raise e) = []"
| "fragments_before_raise (Yield (Text t) rest) = t # fragments_before_raise rest"
| "fragments_before_raise (Yield TextValueError rest) = fragments_before_raise rest"
| "fragments_before_raise (Yield (TextRaises e) rest) = []"

text \<open>
  The exception that ends the consumption of a stream early, if there is one: the first that
  the iteration raises, or that a \<^verbatim>\<open>text\<close> raises and that is not a \<^verbatim>\<open>ValueError\<close>.
\<close>

fun first_raise :: "stream \<Rightarrow> exn option" where
  "first_raise Exhausted = None"
| "first_raise (Raise e) = Some e"
| "first_raise (Yield (Text t) rest) = first_raise rest"
| "first_raise (Yield TextValueError rest) = first_raise rest"
| "first_raise (Yield (TextRaises e) rest) = Some e"

section \<open>Concrete inputs\<close>

text \<open>The rupee sign \<^verbatim>\<open>U+20B9\<close> of the income labels, in UTF-8.\<close>

definition rupee :: string where
  "rupee = [CHR 0xE2, CHR 0x82, CHR 0xB9]"

text \<open>One label of each of the seven select boxes.\<close>

definition demo_selection :: profile_selection where
  "demo_selection =
     \<lparr>age_group = ''18-25 (Young Professional)'',
      income = rupee @ ''20,000 - '' @ rupee @ ''50,000'',
      interest_rate = ''None (No significant debt)'',
      risk_tolerance = ''Aggressive (High growth, high risk)'',
      goal = ''General Wealth Building'',
      time_horizon = ''Long-term (10+ years)'',
      knowledge = ''Novice''\<rparr>"

text \<open>
  A stream of four chunks: text, a chunk whose \<^verbatim>\<open>text\<close> raises \<^verbatim>\<open>ValueError\<close>, an empty
  text, and text again.
\<close>

definition demo_stream :: stream where
  "demo_stream =
     Yield (Text ''Start '') (Yield TextValueError (Yield (Text []) (Yield (Text ''a SIP.'') Exhausted)))"

text \<open>The two turns of the exchange, as the library would report them.\<close>

definition demo_turns :: "string list" where
  "demo_turns = [''user: How should I invest?'', ''model: Start a SIP.'']"

text \<open>
  A library that constructs the model and opens the chat (the handle is the number of
  turns it was opened with), answers every message with \<open>reply\<close>, and whose chat objects
  report \<open>hist\<close> as their history.
\<close>

definition canned_library :: "exn + stream \<Rightarrow> exn + string list \<Rightarrow> (unit, nat, string) genai" where
  "canned_library reply hist =
     \<lparr>GenerativeModel = (\<lambda>name instruction. Inr ()),
      start_chat = (\<lambda>model seed. Inr (length seed)),
      send_message = (\<lambda>chat question. reply),
      history = (\<lambda>chat. hist)\<rparr>"

text \<open>A library whose calls all raise; chat objects of earlier runs report \<open>hist\<close>.\<close>

definition closed_library :: "exn + string list \<Rightarrow> (unit, nat, string) genai" where
  "closed_library hist =
     \<lparr>GenerativeModel = (\<lambda>name instruction. Inl ''service unavailable''),
      start_chat = (\<lambda>model seed. Inl ''service unavailable''),
      send_message = (\<lambda>chat question. Inl ''service unavailable''),
      history = (\<lambda>chat. hist)\<rparr>"

text \<open>The session after one completed exchange.\<close>

definition exchanged_session :: "(nat, string) session_state" where
  "exchanged_session =
     final_state (chat_input_handler (canned_library (Inr demo_stream) (Inr demo_turns))
                    (system_prompt demo_selection) (Some ''How should I invest?'') fresh_session)"

section \<open>Auxiliary facts\<close>

lemma sublist_skip_front: "sublist xs ys \<Longrightarrow> sublist xs (ps @ ys)"
  by (auto simp: sublist_append)

subsection \<open>The loop over the stream\<close>

lemma stream_loop_concat:
  "stream_loop st full out = (None, full', out') \<Longrightarrow> full' = full @ concat (yielded_fragments st)"
  by (induction st full out rule: stream_loop.induct) (auto split: if_splits)

lemma stream_loop_skip:
  "stream_loop (skip_undecodable st) full out = stream_loop st full out"
  by (induction st full out rule: stream_loop.induct) auto

lemma stream_loop_prefix:
  "prefix full (fst (snd (stream_loop st full out))) \<and> prefix out (snd (snd (stream_loop st full out)))"
  by (induction st full out rule: stream_loop.induct) (auto dest: append_prefixD)

lemma stream_loop_first_raise:
  "fst (stream_loop st full out) = first_raise st"
  by (induction st full out rule: stream_loop.induct) auto

lemma stream_loop_accumulates:
  "fst (snd (stream_loop st full out)) = full @ concat (fragments_before_raise st)"
  by (induction st full out rule: stream_loop.induct) auto

lemma demo_stream_loop:
  "stream_loop demo_stream [] [] =
     (None, ''Start a SIP.'',
      [Placeholder (''Start '' @ cursor), Placeholder (''Start a SIP.'' @ cursor)])"
  by (simp add: demo_stream_def)

subsection \<open>The two ways through the handler\<close>

text \<open>
  When the three library calls return and the loop ends without an exception, the handler
  appends both entries, stores the new chat object and reads its history.
\<close>

lemma handler_completed:
  assumes "prompt \<noteq> []"
    and "GenerativeModel g MODEL_NAME sp = Inr m"
    and "start_chat g m (model_history s) = Inr c"
    and "send_message g c prompt = Inr st"
    and "stream_loop st [] [] = (None, full, out)"
  shows "chat_input_handler g sp (Some prompt) s =
     (let s3 = s\<lparr>chat_history := chat_history s @ [(''You'', prompt), (''Bot'', full)],
                  chat_session := Some c\<rparr>
      in case history g c of
           Inl e \<Rightarrow> \<lparr>final_state = s3,
                     rendered = UserMessage prompt # out @ [Placeholder full,
                                  ErrorBox (''Error saving model history: '' @ e)],
                     uncaught = None\<rparr>
         | Inr h \<Rightarrow> \<lparr>final_state = s3\<lparr>model_history := h\<rparr>,
                     rendered = UserMessage prompt # out @ [Placeholder full],
                     uncaught = None\<rparr>)"
  using assms
  by (simp add: chat_input_handler_def get_gemini_response_def save_history_def Let_def
           split: sum.splits)

text \<open>
  When \<^verbatim>\<open>get_gemini_response\<close> returns \<^verbatim>\<open>None\<close>, only the user entry is appended and the
  error is drawn; step 5 still runs on whatever chat object is stored.
\<close>

lemma handler_failed:
  assumes "prompt \<noteq> []"
    and "fst (get_gemini_response g sp prompt
                (s\<lparr>chat_history := chat_history s @ [(''You'', prompt)]\<rparr>)) = None"
  shows "chat_history (final_state (chat_input_handler g sp (Some prompt) s))
           = chat_history s @ [(''You'', prompt)]"
    and "uncaught (chat_input_handler g sp (Some prompt) s) = None"
    and "\<exists>e. api_error e \<in> set (rendered (chat_input_handler g sp (Some prompt) s))"
    and "chat_session (final_state (chat_input_handler g sp (Some prompt) s)) =
           (case GenerativeModel g MODEL_NAME sp of
              Inl e \<Rightarrow> chat_session s
            | Inr m \<Rightarrow> (case start_chat g m (model_history s) of
                          Inl e \<Rightarrow> chat_session s
                        | Inr c \<Rightarrow> Some c))"
    and "model_history (final_state (chat_input_handler g sp (Some prompt) s)) =
           (case chat_session (final_state (chat_input_handler g sp (Some prompt) s)) of
              None \<Rightarrow> model_history s
            | Some c \<Rightarrow> (case history g c of Inl e \<Rightarrow> model_history s | Inr h \<Rightarrow> h))"
  using assms
  by (auto simp: chat_input_handler_def get_gemini_response_def save_history_def Let_def
           split: sum.splits option.splits prod.splits)

text \<open>No exception leaves the handler but the one that ended the loop over the stream.\<close>

lemma handler_uncaught:
  "uncaught (chat_input_handler g sp input s) =
     (case input of
        None \<Rightarrow> None
      | Some prompt \<Rightarrow>
          if prompt = [] then None
          else (case fst (get_gemini_response g sp prompt
                            (s\<lparr>chat_history := chat_history s @ [(''You'', prompt)]\<rparr>)) of
                  None \<Rightarrow> None
                | Some response \<Rightarrow> first_raise response))"
  by (auto simp: chat_input_handler_def Let_def split: option.splits prod.splits)
     (metis fst_conv stream_loop_first_raise)+

lemma get_gemini_response_skip:
  "get_gemini_response
     (g\<lparr>send_message := \<lambda>chat question. map_sum id skip_undecodable (send_message g chat question)\<rparr>)
     sp question s
   = (case get_gemini_response g sp question s of
        (r, s', errs) \<Rightarrow> (map_option skip_undecodable r, s', errs))"
  by (simp add: get_gemini_response_def Let_def split: sum.splits)

lemma save_history_send_message:
  "save_history (g\<lparr>send_message := f\<rparr>) s = save_history g s"
  by (simp add: save_history_def split: option.splits sum.splits)

lemma exchanged_session_eq:
  "exchanged_session =
     \<lparr>chat_history = [(''You'', ''How should I invest?''), (''Bot'', ''Start a SIP.'')],
      model_history = demo_turns, chat_session = Some 0\<rparr>"
  by (simp add: exchanged_session_def fresh_session_def canned_library_def
        handler_completed [where m = "()" and c = 0 and st = demo_stream, OF _ _ _ _ demo_stream_loop])

section \<open>Submitting a message\<close>

text \<open>
  Claim C1. When the model is constructed, the chat is opened, the message is sent, the loop
  over the stream ends without an exception with \<open>full\<close> accumulated, and the history of
  the new chat object reads as \<open>h\<close>, the transcript has grown by exactly the two entries
  \<^verbatim>\<open>("You", prompt)\<close> and \<^verbatim>\<open>("Bot", full)\<close>, in this order, and the model history is \<open>h\<close>,
  whatever it was before. (\<^verbatim>\<open>st.chat_input\<close> never submits an empty text.)
\<close>

theorem submit_success_two_entries_history_replaced:
  assumes "prompt \<noteq> []"
    and "GenerativeModel g MODEL_NAME sp = Inr m"
    and "start_chat g m (model_history s) = Inr c"
    and "send_message g c prompt = Inr st"
    and "stream_loop st [] [] = (None, full, out)"
    and "history g c = Inr h"
  shows "chat_history (final_state (chat_input_handler g sp (Some prompt) s))
           = chat_history s @ [(''You'', prompt), (''Bot'', full)]
         \<and> model_history (final_state (chat_input_handler g sp (Some prompt) s)) = h
         \<and> chat_session (final_state (chat_input_handler g sp (Some prompt) s)) = Some c
         \<and> uncaught (chat_input_handler g sp (Some prompt) s) = None"
  using assms(6) by (simp add: handler_completed [OF assms(1-5)])

theorem submit_success_two_entries_history_replaced_witness:
  "stream_loop demo_stream [] [] =
     (None, ''Start a SIP.'',
      [Placeholder (''Start '' @ cursor), Placeholder (''Start a SIP.'' @ cursor)])
   \<and> chat_history (final_state (chat_input_handler (canned_library (Inr demo_stream) (Inr demo_turns))
        (system_prompt demo_selection) (Some ''How should I invest?'')
        (fresh_session :: (nat, string) session_state)))
       = [(''You'', ''How should I invest?''), (''Bot'', ''Start a SIP.'')]
   \<and> model_history (final_state (chat_input_handler (canned_library (Inr demo_stream) (Inr demo_turns))
        (system_prompt demo_selection) (Some ''How should I invest?'')
        (fresh_session :: (nat, string) session_state)))
       = demo_turns"
proof -
  let ?g = "canned_library (Inr demo_stream) (Inr demo_turns)"
  let ?s = "fresh_session :: (nat, string) session_state"
  have 1: "''How should I invest?'' \<noteq> []" by simp
  have 2: "GenerativeModel ?g MODEL_NAME (system_prompt demo_selection) = Inr ()"
    by (simp add: canned_library_def)
  have 3: "start_chat ?g () (model_history ?s) = Inr 0"
    by (simp add: canned_library_def fresh_session_def)
  have 4: "send_message ?g 0 ''How should I invest?'' = Inr demo_stream"
    by (simp add: canned_library_def)
  have 6: "history ?g 0 = Inr demo_turns"
    by (simp add: canned_library_def)
  from submit_success_two_entries_history_replaced [OF 1 2 3 4 demo_stream_loop 6]
  show ?thesis by (simp add: demo_stream_loop fresh_session_def)
qed

text \<open>
  Claim C2. The remote call is \<^verbatim>\<open>chat.send_message\<close> (line 50); when it raises, line 48 has
  already stored the chat object that was just opened with the current model history. A chat
  object to which no message was delivered reports the history it was opened with, or the
  read raises. Then the transcript has grown by exactly the entry \<^verbatim>\<open>("You", prompt)\<close>, no
  \<^verbatim>\<open>"Bot"\<close> entry is added, the model history is the one before the submit, the error is
  drawn and no exception leaves the script.
\<close>

theorem failed_remote_call_one_entry_history_unchanged:
  assumes "prompt \<noteq> []"
    and "GenerativeModel g MODEL_NAME sp = Inr m"
    and "start_chat g m (model_history s) = Inr c"
    and "send_message g c prompt = Inl e"
    and "history g c = Inr (model_history s) \<or> history g c = Inl e'"
  shows "chat_history (final_state (chat_input_handler g sp (Some prompt) s))
           = chat_history s @ [(''You'', prompt)]
         \<and> model_history (final_state (chat_input_handler g sp (Some prompt) s)) = model_history s
         \<and> api_error e \<in> set (rendered (chat_input_handler g sp (Some prompt) s))
         \<and> uncaught (chat_input_handler g sp (Some prompt) s) = None"
  using assms
  by (auto simp: chat_input_handler_def get_gemini_response_def save_history_def Let_def)

theorem failed_remote_call_one_entry_history_unchanged_witness:
  "send_message (canned_library (Inl ''quota exceeded'') (Inr demo_turns)) 2 ''And my debt?''
     = Inl ''quota exceeded''
   \<and> history (canned_library (Inl ''quota exceeded'') (Inr demo_turns)) 2
     = Inr (model_history exchanged_session)
   \<and> model_history exchanged_session = demo_turns
   \<and> chat_history (final_state (chat_input_handler (canned_library (Inl ''quota exceeded'') (Inr demo_turns))
         (system_prompt demo_selection) (Some ''And my debt?'') exchanged_session))
       = [(''You'', ''How should I invest?''), (''Bot'', ''Start a SIP.''), (''You'', ''And my debt?'')]
   \<and> model_history (final_state (chat_input_handler (canned_library (Inl ''quota exceeded'') (Inr demo_turns))
         (system_prompt demo_selection) (Some ''And my debt?'') exchanged_session))
       = demo_turns
   \<and> uncaught (chat_input_handler (canned_library (Inl ''quota exceeded'') (Inr demo_turns))
         (system_prompt demo_selection) (Some ''And my debt?'') exchanged_session) = None"
proof -
  let ?g = "canned_library (Inl ''quota exceeded'') (Inr demo_turns)"
  have 1: "''And my debt?'' \<noteq> []" by simp
  have 2: "GenerativeModel ?g MODEL_NAME (system_prompt demo_selection) = Inr ()"
    by (simp add: canned_library_def)
  have 3: "start_chat ?g () (model_history exchanged_session) = Inr 2"
    by (simp add: canned_library_def exchanged_session_eq demo_turns_def)
  have 4: "send_message ?g 2 ''And my debt?'' = Inl ''quota exceeded''"
    by (simp add: canned_library_def)
  have 5: "history ?g 2 = Inr (model_history exchanged_session) \<or> history ?g 2 = Inl []"
    by (simp add: canned_library_def exchanged_session_eq)
  from failed_remote_call_one_entry_history_unchanged [OF 1 2 3 4 5] 4
  show ?thesis by (simp add: exchanged_session_eq canned_library_def)
qed

text \<open>
  Claim C3. After a stream that is consumed without an exception, the text of the appended
  \<^verbatim>\<open>"Bot"\<close> entry is the concatenation, in order, of the fragments that the stream yielded.
\<close>

theorem assistant_entry_is_concat_of_fragments:
  assumes "prompt \<noteq> []"
    and "GenerativeModel g MODEL_NAME sp = Inr m"
    and "start_chat g m (model_history s) = Inr c"
    and "send_message g c prompt = Inr st"
    and "fst (stream_loop st [] []) = None"
  shows "chat_history (final_state (chat_input_handler g sp (Some prompt) s))
           = chat_history s @ [(''You'', prompt), (''Bot'', concat (yielded_fragments st))]"
proof -
  obtain full out where loop: "stream_loop st [] [] = (None, full, out)"
    using assms(5) by (cases "stream_loop st [] []") auto
  from stream_loop_concat [OF loop] have "full = concat (yielded_fragments st)" by simp
  then show ?thesis
    by (simp add: handler_completed [OF assms(1-4) loop] Let_def split: sum.splits)
qed

theorem assistant_entry_is_concat_of_fragments_witness:
  "fst (stream_loop demo_stream [] []) = None
   \<and> yielded_fragments demo_stream = [''Start '', [], ''a SIP.'']
   \<and> chat_history (final_state (chat_input_handler (canned_library (Inr demo_stream) (Inl ''broken response''))
        (system_prompt demo_selection) (Some ''How should I invest?'')
        (fresh_session :: (nat, string) session_state)))
       = [(''You'', ''How should I invest?''), (''Bot'', ''Start a SIP.'')]"
proof -
  let ?g = "canned_library (Inr demo_stream) (Inl ''broken response'')"
  let ?s = "fresh_session :: (nat, string) session_state"
  have 1: "''How should I invest?'' \<noteq> []" by simp
  have 2: "GenerativeModel ?g MODEL_NAME (system_prompt demo_selection) = Inr ()"
    by (simp add: canned_library_def)
  have 3: "start_chat ?g () (model_history ?s) = Inr 0"
    by (simp add: canned_library_def fresh_session_def)
  have 4: "send_message ?g 0 ''How should I invest?'' = Inr demo_stream"
    by (simp add: canned_library_def)
  have 5: "fst (stream_loop demo_stream [] []) = None"
    by (simp add: demo_stream_loop)
  have 6: "yielded_fragments demo_stream = [''Start '', [], ''a SIP.'']"
    by (simp add: demo_stream_def)
  from assistant_entry_is_concat_of_fragments [OF 1 2 3 4 5] 5 6
  show ?thesis by (simp add: fresh_session_def)
qed

section \<open>The profile compiler\<close>

text \<open>
  Claim C4. The instruction text is a function of the seven selection fields alone: equal
  selections give equal text, and the text of every selection contains each of its seven
  field values as a contiguous piece.
\<close>

theorem system_prompt_pure_and_verbatim:
  "(sel = sel' \<longrightarrow> system_prompt sel = system_prompt sel')
   \<and> sublist (age_group sel) (system_prompt sel)
   \<and> sublist (income sel) (system_prompt sel)
   \<and> sublist (interest_rate sel) (system_prompt sel)
   \<and> sublist (risk_tolerance sel) (system_prompt sel)
   \<and> sublist (goal sel) (system_prompt sel)
   \<and> sublist (time_horizon sel) (system_prompt sel)
   \<and> sublist (knowledge sel) (system_prompt sel)"
proof -
  have 1: "sublist (age_group sel) (system_prompt sel)"
    unfolding system_prompt_def by (rule sublist_append_rightI | rule sublist_skip_front)+
  have 2: "sublist (income sel) (system_prompt sel)"
    unfolding system_prompt_def by (rule sublist_append_rightI | rule sublist_skip_front)+
  have 3: "sublist (interest_rate sel) (system_prompt sel)"
    unfolding system_prompt_def by (rule sublist_append_rightI | rule sublist_skip_front)+
  have 4: "sublist (risk_tolerance sel) (system_prompt sel)"
    unfolding system_prompt_def by (rule sublist_append_rightI | rule sublist_skip_front)+
  have 5: "sublist (goal sel) (system_prompt sel)"
    unfolding system_prompt_def by (rule sublist_append_rightI | rule sublist_skip_front)+
  have 6: "sublist (time_horizon sel) (system_prompt sel)"
    unfolding system_prompt_def by (rule sublist_append_rightI | rule sublist_skip_front)+
  have 7: "sublist (knowledge sel) (system_prompt sel)"
    unfolding system_prompt_def by (rule sublist_append_rightI | rule sublist_skip_front)+
  from 1 2 3 4 5 6 7 show ?thesis by simp
qed

theorem system_prompt_pure_and_verbatim_witness:
  "demo_selection = demo_selection
   \<and> system_prompt demo_selection = system_prompt demo_selection
   \<and> sublist ''18-25 (Young Professional)'' (system_prompt demo_selection)
   \<and> sublist (rupee @ ''20,000 - '' @ rupee @ ''50,000'') (system_prompt demo_selection)
   \<and> sublist ''None (No significant debt)'' (system_prompt demo_selection)
   \<and> sublist ''Aggressive (High growth, high risk)'' (system_prompt demo_selection)
   \<and> sublist ''General Wealth Building'' (system_prompt demo_selection)
   \<and> sublist ''Long-term (10+ years)'' (system_prompt demo_selection)
   \<and> sublist ''Novice'' (system_prompt demo_selection)"
  using system_prompt_pure_and_verbatim [of demo_selection demo_selection]
  by (simp add: demo_selection_def)

section \<open>Reset\<close>

text \<open>
  Claim C5. \<^verbatim>\<open>reset_history\<close> leaves the transcript and the model history both empty, has
  no result besides the state it leaves, and running it twice leaves the state that running
  it once leaves.
\<close>

theorem reset_history_clears_both_idempotent:
  "chat_history (reset_history s) = []
   \<and> model_history (reset_history s) = []
   \<and> reset_history (reset_history s) = reset_history s"
  by (simp add: reset_history_def)

text \<open>
  Claim C6 as stated does not hold: \<^verbatim>\<open>reset_history\<close> does not assign \<^verbatim>\<open>chat_session\<close>. After
  one exchange and a reset the session still holds the chat object of that exchange.
\<close>

theorem reset_discards_handle_counterexample:
  "chat_session exchanged_session = Some 0
   \<and> chat_session (reset_history exchanged_session) = Some 0"
  by (simp add: exchanged_session_eq reset_history_def)

text \<open>
  Claim C6, amended. \<^verbatim>\<open>reset_history\<close> takes every state to one with an empty transcript and
  an empty model history, and leaves the stored chat object as it was.
\<close>

theorem reset_empties_and_keeps_handle:
  "chat_history (reset_history s) = []
   \<and> model_history (reset_history s) = []
   \<and> chat_session (reset_history s) = chat_session s"
  by (simp add: reset_history_def)

section \<open>Streams without text, and undecodable chunks\<close>

text \<open>
  Claim C7 as stated does not hold: a response object that yields no chunk at all still
  passes the test of line 197, so the entry \<^verbatim>\<open>("Bot", "")\<close> is appended and the model history
  is read from the chat object.
\<close>

theorem empty_stream_counterexample:
  "yielded_fragments Exhausted = []
   \<and> chat_history (final_state (chat_input_handler (canned_library (Inr Exhausted) (Inr demo_turns))
        (system_prompt demo_selection) (Some ''How should I invest?'')
        (fresh_session :: (nat, string) session_state)))
       = [(''You'', ''How should I invest?''), (''Bot'', [])]
   \<and> model_history (fresh_session :: (nat, string) session_state) = []
   \<and> model_history (final_state (chat_input_handler (canned_library (Inr Exhausted) (Inr demo_turns))
        (system_prompt demo_selection) (Some ''How should I invest?'')
        (fresh_session :: (nat, string) session_state)))
       = [''user: How should I invest?'', ''model: Start a SIP.'']"
  by (simp add: chat_input_handler_def get_gemini_response_def save_history_def
        canned_library_def fresh_session_def demo_turns_def)

text \<open>
  Claim C7, amended. When \<^verbatim>\<open>get_gemini_response\<close> returns \<^verbatim>\<open>None\<close>, no \<^verbatim>\<open>"Bot"\<close> entry is
  appended. When a stream is returned, is consumed without an exception and yields no
  fragment, the entry \<^verbatim>\<open>("Bot", "")\<close> is appended, and the model history is the history that
  the new chat object reports (unchanged if that read raises).
\<close>

theorem no_stream_no_entry_empty_stream_empty_entry:
  "(prompt \<noteq> []
      \<and> fst (get_gemini_response g sp prompt
                (s\<lparr>chat_history := chat_history s @ [(''You'', prompt)]\<rparr>)) = None
    \<longrightarrow> chat_history (final_state (chat_input_handler g sp (Some prompt) s))
          = chat_history s @ [(''You'', prompt)])
   \<and> (prompt' \<noteq> []
      \<and> GenerativeModel g' MODEL_NAME sp' = Inr m
      \<and> start_chat g' m (model_history s') = Inr c
      \<and> send_message g' c prompt' = Inr st
      \<and> fst (stream_loop st [] []) = None
      \<and> yielded_fragments st = []
    \<longrightarrow> chat_history (final_state (chat_input_handler g' sp' (Some prompt') s'))
          = chat_history s' @ [(''You'', prompt'), (''Bot'', [])]
        \<and> model_history (final_state (chat_input_handler g' sp' (Some prompt') s'))
          = (case history g' c of Inl e \<Rightarrow> model_history s' | Inr h \<Rightarrow> h))"
proof (intro conjI impI)
  assume "prompt \<noteq> [] \<and> fst (get_gemini_response g sp prompt
            (s\<lparr>chat_history := chat_history s @ [(''You'', prompt)]\<rparr>)) = None"
  then show "chat_history (final_state (chat_input_handler g sp (Some prompt) s))
               = chat_history s @ [(''You'', prompt)]"
    using handler_failed(1) by blast
next
  assume a: "prompt' \<noteq> []
      \<and> GenerativeModel g' MODEL_NAME sp' = Inr m
      \<and> start_chat g' m (model_history s') = Inr c
      \<and> send_message g' c prompt' = Inr st
      \<and> fst (stream_loop st [] []) = None
      \<and> yielded_fragments st = []"
  then obtain full out where loop: "stream_loop st [] [] = (None, full, out)"
    by (cases "stream_loop st [] []") auto
  from stream_loop_concat [OF loop] a have full: "full = []" by simp
  from a have h: "prompt' \<noteq> []" "GenerativeModel g' MODEL_NAME sp' = Inr m"
    "start_chat g' m (model_history s') = Inr c" "send_message g' c prompt' = Inr st"
    by simp_all
  show "chat_history (final_state (chat_input_handler g' sp' (Some prompt') s'))
          = chat_history s' @ [(''You'', prompt'), (''Bot'', [])]"
    by (simp add: handler_completed [OF h loop] full Let_def split: sum.splits)
  show "model_history (final_state (chat_input_handler g' sp' (Some prompt') s'))
          = (case history g' c of Inl e \<Rightarrow> model_history s' | Inr h \<Rightarrow> h)"
    by (simp add: handler_completed [OF h loop] full Let_def split: sum.splits)
qed

theorem no_stream_no_entry_empty_stream_empty_entry_witness:
  "fst (get_gemini_response (closed_library (Inl ''no session'')) (system_prompt demo_selection)
          ''How should I invest?''
          ((fresh_session :: (nat, string) session_state)
             \<lparr>chat_history := chat_history (fresh_session :: (nat, string) session_state)
                                 @ [(''You'', ''How should I invest?'')]\<rparr>)) = None
   \<and> chat_history (final_state (chat_input_handler (closed_library (Inl ''no session''))
        (system_prompt demo_selection) (Some ''How should I invest?'')
        (fresh_session :: (nat, string) session_state)))
       = [(''You'', ''How should I invest?'')]
   \<and> yielded_fragments (Yield TextValueError Exhausted) = []
   \<and> chat_history (final_state (chat_input_handler
        (canned_library (Inr (Yield TextValueError Exhausted)) (Inr demo_turns))
        (system_prompt demo_selection) (Some ''How should I invest?'')
        (fresh_session :: (nat, string) session_state)))
       = [(''You'', ''How should I invest?''), (''Bot'', [])]
   \<and> model_history (final_state (chat_input_handler
        (canned_library (Inr (Yield TextValueError Exhausted)) (Inr demo_turns))
        (system_prompt demo_selection) (Some ''How should I invest?'')
        (fresh_session :: (nat, string) session_state)))
       = demo_turns"
proof -
  let ?s = "fresh_session :: (nat, string) session_state"
  let ?g = "closed_library (Inl ''no session'')"
  let ?g' = "canned_library (Inr (Yield TextValueError Exhausted)) (Inr demo_turns)"
  have 1: "''How should I invest?'' \<noteq> []" by simp
  have 2: "fst (get_gemini_response ?g (system_prompt demo_selection) ''How should I invest?''
             (?s\<lparr>chat_history := chat_history ?s @ [(''You'', ''How should I invest?'')]\<rparr>)) = None"
    by (simp add: get_gemini_response_def closed_library_def)
  have 3: "GenerativeModel ?g' MODEL_NAME (system_prompt demo_selection) = Inr ()"
    by (simp add: canned_library_def)
  have 4: "start_chat ?g' () (model_history ?s) = Inr 0"
    by (simp add: canned_library_def fresh_session_def)
  have 5: "send_message ?g' 0 ''How should I invest?'' = Inr (Yield TextValueError Exhausted)"
    by (simp add: canned_library_def)
  have 6: "fst (stream_loop (Yield TextValueError Exhausted) [] []) = None" by simp
  have 7: "yielded_fragments (Yield TextValueError Exhausted) = []" by simp
  have 8: "history ?g' 0 = Inr demo_turns" by (simp add: canned_library_def)
  from no_stream_no_entry_empty_stream_empty_entry
         [of "''How should I invest?''" ?g "system_prompt demo_selection" ?s
             "''How should I invest?''" ?g' "system_prompt demo_selection" "()" ?s 0
             "Yield TextValueError Exhausted"]
       1 2 3 4 5 6 7 8
  show ?thesis by (simp add: fresh_session_def)
qed

text \<open>
  Claim C8. A chunk whose \<^verbatim>\<open>text\<close> raises \<^verbatim>\<open>ValueError\<close> is skipped and the loop goes on with
  the rest of the stream:
  \<^item> the loop continues after such a chunk with the accumulators it had, and gives the same
    result on the stream without such chunks;
  \<^item> the reply it accumulates is what was accumulated before, followed by every fragment
    read up to the end of the stream or to the first other exception, those after an
    undecodable chunk included; so a fragment \<open>b\<close> that follows an undecodable chunk is
    appended after the fragment \<open>a\<close> that preceded it;
  \<^item> the loop ends early only with the first exception that is not such a \<^verbatim>\<open>ValueError\<close>,
    and no other exception leaves the handler;
  \<^item> the whole handler gives the same outcome (state, page and uncaught exception) when the
    library's streams are replaced by the streams without such chunks.
\<close>

theorem decode_error_skipped_stream_continues:
  "stream_loop (Yield TextValueError rest) full_response out = stream_loop rest full_response out
   \<and> stream_loop (skip_undecodable st) full_response out = stream_loop st full_response out
   \<and> prefix full_response (fst (snd (stream_loop st full_response out)))
   \<and> chat_input_handler
        (g\<lparr>send_message := \<lambda>chat question. map_sum id skip_undecodable (send_message g chat question)\<rparr>)
        sp input s
      = chat_input_handler g sp input s
   \<and> fst (snd (stream_loop st full_response out))
      = full_response @ concat (fragments_before_raise st)
   \<and> fst (snd (stream_loop (Yield (Text a) (Yield TextValueError (Yield (Text b) rest)))
                 full_response out))
      = full_response @ a @ b @ concat (fragments_before_raise rest)
   \<and> fst (stream_loop st full_response out) = first_raise st
   \<and> uncaught (chat_input_handler g sp input s) =
       (case input of
          None \<Rightarrow> None
        | Some prompt \<Rightarrow>
            if prompt = [] then None
            else (case fst (get_gemini_response g sp prompt
                              (s\<lparr>chat_history := chat_history s @ [(''You'', prompt)]\<rparr>)) of
                    None \<Rightarrow> None
                  | Some response \<Rightarrow> first_raise response))"
proof -
  have same: "chat_input_handler
        (g\<lparr>send_message := \<lambda>chat question. map_sum id skip_undecodable (send_message g chat question)\<rparr>)
        sp input s
      = chat_input_handler g sp input s"
    unfolding chat_input_handler_def get_gemini_response_skip save_history_send_message Let_def
    by (simp add: stream_loop_skip split: option.splits prod.splits)
  have after: "fst (snd (stream_loop (Yield (Text a) (Yield TextValueError (Yield (Text b) rest)))
                 full_response out))
      = full_response @ a @ b @ concat (fragments_before_raise rest)"
    by (simp add: stream_loop_accumulates)
  have skipped: "stream_loop (Yield TextValueError rest) full_response out
      = stream_loop rest full_response out"
    by simp
  from skipped stream_loop_skip [of st full_response out]
       stream_loop_prefix [of full_response st out] same
       stream_loop_accumulates [of st full_response out] after
       stream_loop_first_raise [of st full_response out]
       handler_uncaught [of g sp input s]
  show ?thesis by blast
qed

section \<open>Failures\<close>

text \<open>
  Claim C9 as stated does not hold: line 48 stores the chat object before line 50 sends the
  message. When \<^verbatim>\<open>send_message\<close> is the call that raises, as it is for a missing
  credential, the session holds the new chat object afterwards.
\<close>

theorem missing_credential_handle_null_counterexample:
  "chat_session (fresh_session :: (nat, string) session_state) = None
   \<and> fst (get_gemini_response (canned_library (Inl ''No API_KEY or ADC found'') (Inr []))
          (system_prompt demo_selection) ''How should I invest?''
          ((fresh_session :: (nat, string) session_state)
             \<lparr>chat_history := chat_history (fresh_session :: (nat, string) session_state)
                                 @ [(''You'', ''How should I invest?'')]\<rparr>)) = None
   \<and> chat_session (final_state (chat_input_handler
        (canned_library (Inl ''No API_KEY or ADC found'') (Inr []))
        (system_prompt demo_selection) (Some ''How should I invest?'')
        (fresh_session :: (nat, string) session_state))) = Some 0"
  by (simp add: chat_input_handler_def get_gemini_response_def save_history_def
        canned_library_def fresh_session_def)

text \<open>
  Claim C9, amended. After a failed first submit of a session the transcript holds exactly
  the user entry, the error is drawn with \<^verbatim>\<open>st.error\<close> and no exception leaves the script.
  The stored chat object is still \<^verbatim>\<open>None\<close> when constructing the model or opening the chat
  raised, and is the newly opened chat when \<^verbatim>\<open>send_message\<close> raised.
\<close>

theorem failed_first_submit_error_shown_handle_as_opened:
  assumes "prompt \<noteq> []"
    and "fst (get_gemini_response g sp prompt
                (fresh_session\<lparr>chat_history := [(''You'', prompt)]\<rparr>)) = None"
  shows "chat_history (final_state (chat_input_handler g sp (Some prompt) fresh_session))
           = [(''You'', prompt)]
         \<and> (\<exists>e. api_error e \<in> set (rendered (chat_input_handler g sp (Some prompt) fresh_session)))
         \<and> uncaught (chat_input_handler g sp (Some prompt) fresh_session) = None
         \<and> chat_session (final_state (chat_input_handler g sp (Some prompt) fresh_session)) =
             (case GenerativeModel g MODEL_NAME sp of
                Inl e \<Rightarrow> None
              | Inr m \<Rightarrow> (case start_chat g m [] of Inl e \<Rightarrow> None | Inr c \<Rightarrow> Some c))"
proof -
  have failed: "fst (get_gemini_response g sp prompt
       (fresh_session\<lparr>chat_history := chat_history fresh_session @ [(''You'', prompt)]\<rparr>)) = None"
    using assms(2) by (simp add: fresh_session_def)
  from handler_failed(1-4) [OF assms(1) failed] show ?thesis
    by (simp add: fresh_session_def cong: sum.case_cong)
qed

theorem failed_first_submit_error_shown_handle_as_opened_witness:
  "fst (get_gemini_response (closed_library (Inr [])) (system_prompt demo_selection)
          ''How should I invest?''
          ((fresh_session :: (nat, string) session_state)
             \<lparr>chat_history := [(''You'', ''How should I invest?'')]\<rparr>)) = None
   \<and> chat_history (final_state (chat_input_handler (closed_library (Inr []))
        (system_prompt demo_selection) (Some ''How should I invest?'')
        (fresh_session :: (nat, string) session_state)))
       = [(''You'', ''How should I invest?'')]
   \<and> uncaught (chat_input_handler (closed_library (Inr []))
        (system_prompt demo_selection) (Some ''How should I invest?'')
        (fresh_session :: (nat, string) session_state)) = None
   \<and> chat_session (final_state (chat_input_handler (closed_library (Inr []))
        (system_prompt demo_selection) (Some ''How should I invest?'')
        (fresh_session :: (nat, string) session_state))) = None"
proof -
  let ?s = "fresh_session :: (nat, string) session_state"
  let ?g = "closed_library (Inr [])"
  have 1: "''How should I invest?'' \<noteq> []" by simp
  have 2: "fst (get_gemini_response ?g (system_prompt demo_selection) ''How should I invest?''
             (?s\<lparr>chat_history := [(''You'', ''How should I invest?'')]\<rparr>)) = None"
    by (simp add: get_gemini_response_def closed_library_def)
  have 3: "GenerativeModel ?g MODEL_NAME (system_prompt demo_selection) = Inl ''service unavailable''"
    by (simp add: closed_library_def)
  from failed_first_submit_error_shown_handle_as_opened [OF 1 2] 2 3
  show ?thesis by simp
qed

text \<open>
  Claim C10. When the stream was consumed and the \<^verbatim>\<open>"Bot"\<close> entry appended, and reading the
  history of the chat object raises, the entry stays in the transcript, the model history
  keeps the value it had before the submit, the error is drawn and no exception leaves the
  script; a following submit that succeeds, its chat opened with that unchanged model
  history, appends its two entries and stores the history it reads.
\<close>

theorem history_read_failure_keeps_reply:
  assumes "prompt \<noteq> []"
    and "GenerativeModel g MODEL_NAME sp = Inr m"
    and "start_chat g m (model_history s) = Inr c"
    and "send_message g c prompt = Inr st"
    and "stream_loop st [] [] = (None, full, out)"
    and "history g c = Inl e"
    and "prompt' \<noteq> []"
    and "GenerativeModel g' MODEL_NAME sp' = Inr m'"
    and "start_chat g' m' (model_history s) = Inr c'"
    and "send_message g' c' prompt' = Inr st'"
    and "stream_loop st' [] [] = (None, full', out')"
    and "history g' c' = Inr h'"
  shows "chat_history (final_state (chat_input_handler g sp (Some prompt) s))
           = chat_history s @ [(''You'', prompt), (''Bot'', full)]
         \<and> model_history (final_state (chat_input_handler g sp (Some prompt) s)) = model_history s
         \<and> ErrorBox (''Error saving model history: '' @ e)
             \<in> set (rendered (chat_input_handler g sp (Some prompt) s))
         \<and> uncaught (chat_input_handler g sp (Some prompt) s) = None
         \<and> chat_history (final_state (chat_input_handler g' sp' (Some prompt')
               (final_state (chat_input_handler g sp (Some prompt) s))))
           = chat_history s @ [(''You'', prompt), (''Bot'', full), (''You'', prompt'), (''Bot'', full')]
         \<and> model_history (final_state (chat_input_handler g' sp' (Some prompt')
               (final_state (chat_input_handler g sp (Some prompt) s)))) = h'
         \<and> uncaught (chat_input_handler g' sp' (Some prompt')
               (final_state (chat_input_handler g sp (Some prompt) s))) = None"
proof -
  let ?s1 = "s\<lparr>chat_history := chat_history s @ [(''You'', prompt), (''Bot'', full)],
               chat_session := Some c\<rparr>"
  have first: "chat_input_handler g sp (Some prompt) s =
      \<lparr>final_state = ?s1,
       rendered = UserMessage prompt # out @ [Placeholder full,
                    ErrorBox (''Error saving model history: '' @ e)],
       uncaught = None\<rparr>"
    using assms(6) by (simp add: handler_completed [OF assms(1-5)])
  have seed: "start_chat g' m' (model_history ?s1) = Inr c'"
    using assms(9) by simp
  have second: "chat_input_handler g' sp' (Some prompt') ?s1 =
      \<lparr>final_state = ?s1\<lparr>chat_history := chat_history ?s1 @ [(''You'', prompt'), (''Bot'', full')],
                          chat_session := Some c', model_history := h'\<rparr>,
       rendered = UserMessage prompt' # out' @ [Placeholder full'],
       uncaught = None\<rparr>"
    using assms(12) by (simp add: handler_completed [OF assms(7,8) seed assms(10,11)])
  show ?thesis
    by (simp add: first second)
qed

theorem history_read_failure_keeps_reply_witness:
  "chat_history (final_state (chat_input_handler (canned_library (Inr demo_stream) (Inl ''broken response''))
        (system_prompt demo_selection) (Some ''How should I invest?'')
        (fresh_session :: (nat, string) session_state)))
       = [(''You'', ''How should I invest?''), (''Bot'', ''Start a SIP.'')]
   \<and> model_history (final_state (chat_input_handler (canned_library (Inr demo_stream) (Inl ''broken response''))
        (system_prompt demo_selection) (Some ''How should I invest?'')
        (fresh_session :: (nat, string) session_state))) = []
   \<and> ErrorBox ''Error saving model history: broken response''
        \<in> set (rendered (chat_input_handler (canned_library (Inr demo_stream) (Inl ''broken response''))
        (system_prompt demo_selection) (Some ''How should I invest?'')
        (fresh_session :: (nat, string) session_state)))
   \<and> model_history (final_state (chat_input_handler (canned_library (Inr demo_stream) (Inr demo_turns))
        (system_prompt demo_selection) (Some ''How should I invest?'')
        (final_state (chat_input_handler (canned_library (Inr demo_stream) (Inl ''broken response''))
           (system_prompt demo_selection) (Some ''How should I invest?'')
           (fresh_session :: (nat, string) session_state))))) = demo_turns"
proof -
  let ?g = "canned_library (Inr demo_stream) (Inl ''broken response'')"
  let ?g' = "canned_library (Inr demo_stream) (Inr demo_turns)"
  let ?s = "fresh_session :: (nat, string) session_state"
  have 1: "''How should I invest?'' \<noteq> []" by simp
  have 2: "GenerativeModel ?g MODEL_NAME (system_prompt demo_selection) = Inr ()"
    by (simp add: canned_library_def)
  have 3: "start_chat ?g () (model_history ?s) = Inr 0"
    by (simp add: canned_library_def fresh_session_def)
  have 4: "send_message ?g 0 ''How should I invest?'' = Inr demo_stream"
    by (simp add: canned_library_def)
  have 6: "history ?g 0 = Inl ''broken response''"
    by (simp add: canned_library_def)
  have 8: "GenerativeModel ?g' MODEL_NAME (system_prompt demo_selection) = Inr ()"
    by (simp add: canned_library_def)
  have 9: "start_chat ?g' () (model_history ?s) = Inr 0"
    by (simp add: canned_library_def fresh_session_def)
  have 10: "send_message ?g' 0 ''How should I invest?'' = Inr demo_stream"
    by (simp add: canned_library_def)
  have 12: "history ?g' 0 = Inr demo_turns"
    by (simp add: canned_library_def)
  from history_read_failure_keeps_reply
         [OF 1 2 3 4 demo_stream_loop 6 1 8 9 10 demo_stream_loop 12]
  show ?thesis by (simp add: fresh_session_def)
qed

end
